theory Spec2Isabelle
  imports Complex_Main "HOL-Library.AList"
begin

section \<open>The training and evaluation orchestrator of main.py\<close>

text \<open>
  The development embeds the function \<open>main\<close> of \<open>src/main.py\<close> from the point where the
  effective configuration has been merged (line 257) to the end of the epoch loop
  (line 630).  Mutation of \<open>args\<close> and of the local variables is explicit state passing,
  every \<open>raise\<close>, failed lookup and unbound name is an error value, and every call of a
  collaborator that is observable from outside (building a model or a dataset, reading a
  checkpoint, writing a file) is recorded in a trace.
\<close>

subsection \<open>Values of the configuration\<close>

text \<open>
  A field of \<open>args\<close> that the dataset configuration (a JSON document) may overwrite holds a
  string or a list.  Subscripting a list yields its element, subscripting a string yields the
  one-character string at that position, and both raise IndexError out of range.
\<close>

datatype cfgval = Str string | Lst "cfgval list"

datatype error =
    RuntimeError string
  | AssertionError string
  | IndexError
  | KeyError string
  | TypeError
  | AttributeError string
  | NameError string
  | UnboundLocalError string
  | ZeroDivisionError
  | FileNotFoundError string
  | CollaboratorError string

fun is_list :: "cfgval \<Rightarrow> bool" where
  "is_list (Lst xs) = True"
| "is_list (Str s) = False"

fun subscript :: "cfgval \<Rightarrow> nat \<Rightarrow> error + cfgval" where
  "subscript (Lst xs) i = (if i < length xs then Inr (xs ! i) else Inl IndexError)"
| "subscript (Str s) i = (if i < length s then Inr (Str [s ! i]) else Inl IndexError)"

text \<open>\<open>s.startswith(p)\<close> and \<open>p in s\<close> on strings.\<close>

definition startswith :: "string \<Rightarrow> string \<Rightarrow> bool" where
  "startswith s p = (take (length p) s = p)"

fun contains :: "string \<Rightarrow> string \<Rightarrow> bool" where
  "contains [] p = (p = [])"
| "contains (c # cs) p = (startswith (c # cs) p \<or> contains cs p)"

record args =
  combine_datasets :: "string list"
  combine_datasets_val :: "string list"
  GT_type :: cfgval
  refexp_dataset_name :: cfgval
  flickr_img_path :: cfgval
  coco_path :: cfgval
  dataset_config :: string
  flickr_dataset_path :: string
  eval :: bool
  test :: bool
  ema :: bool
  do_caption :: bool
  no_detection :: bool
  distributed :: bool
  from_colossalai :: bool
  from_deepspeed :: bool
  use_colo_zero :: bool
  optimizer :: string
  frozen_weights :: "string option"
  load :: string
  resume :: string
  output_dir :: string
  start_epoch :: int
  epochs :: int
  eval_skip :: int
  lr_drop :: int

subsection \<open>The evaluator dispatcher (lines 454-481)\<close>

text \<open>
  An evaluator is represented by the constructor call that makes it, with the arguments the
  source passes: the annotation path, the subset, \<open>merge_boxes\<close> and (for captioning) the
  experiment id; for the detection evaluators the base annotation store.
\<close>

datatype 'b evaluator =
    FlickrCaptionEvaluator string string bool string
  | CocoEvaluator 'b "string list" bool
  | RefExpEvaluator 'b string
  | FlickrEvaluator string string bool

definition subset_of :: "args \<Rightarrow> string" where
  "subset_of a = (if test a then ''test'' else ''val'')"

definition build_evaluator_list :: "args \<Rightarrow> 'b \<Rightarrow> string \<Rightarrow> bool \<Rightarrow> 'b evaluator list" where
  "build_evaluator_list a base_ds dataset_name do_cap =
     (let evaluator_list =
            (if contains dataset_name ''flickr'' \<and> do_cap
             then [FlickrCaptionEvaluator (flickr_dataset_path a) (subset_of a)
                     (GT_type a = Str ''merged'') (output_dir a)]
             else [])
      in if no_detection a then evaluator_list
         else
           (let iou_types = [''bbox''];
                l1 = evaluator_list @ [CocoEvaluator base_ds iou_types False];
                l2 = (if contains dataset_name ''refexp'' then l1 @ [RefExpEvaluator base_ds ''bbox''] else l1);
                l3 = (if contains dataset_name ''flickr''
                      then l2 @ [FlickrEvaluator (flickr_dataset_path a) (subset_of a)
                                   (GT_type a = Str ''merged'')]
                      else l2)
            in l3))"

subsection \<open>State dictionaries and checkpoints\<close>

text \<open>
  A state dictionary maps parameter names to tensors; tensors are opaque (\<open>'w\<close>).
  \<open>m.load_state_dict(sd, strict)\<close> overwrites the parameters of \<open>m\<close> that \<open>sd\<close> names and,
  when strict, raises unless both have the same keys.  Shape checks are not modelled.
\<close>

type_synonym 'w state_dict = "(string \<times> 'w) list"

definition load_state_dict :: "'w state_dict \<Rightarrow> 'w state_dict \<Rightarrow> bool \<Rightarrow> error + 'w state_dict" where
  "load_state_dict m sd strict =
     (if strict \<and> set (map fst sd) \<noteq> set (map fst m)
      then Inl (RuntimeError ''Error(s) in loading state_dict'')
      else Inr (map (\<lambda>(k, v). (k, case map_of sd k of Some v' \<Rightarrow> v' | None \<Rightarrow> v)) m))"

text \<open>
  \<open>model_without_ddp.detr\<close> is the sub-module whose parameters carry the prefix \<open>detr.\<close>;
  the attribute lookup fails when the model has no such sub-module.
\<close>

definition has_detr :: "'w state_dict \<Rightarrow> bool" where
  "has_detr m = list_ex (\<lambda>kv. startswith (fst kv) ''detr.'') m"

definition load_detr :: "'w state_dict \<Rightarrow> 'w state_dict \<Rightarrow> 'w state_dict" where
  "load_detr m sd =
     map (\<lambda>(k, v). (k, if startswith k ''detr.''
                        then (case map_of sd (drop 5 k) of Some v' \<Rightarrow> v' | None \<Rightarrow> v)
                        else v)) m"

text \<open>
  A checkpoint is a dictionary with optional keys.  \<open>ck_model_ema = None\<close> is a missing key
  and \<open>Some None\<close> is the key present with the value \<open>None\<close>, which is what line 568 stores
  when EMA is off.
\<close>

record ('w, 'o) checkpoint =
  ck_model :: "'w state_dict option"
  ck_model_ema :: "'w state_dict option option"
  ck_optimizer :: "'o option"
  ck_epoch :: "int option"

subsection \<open>Statistics\<close>

text \<open>
  A floating-point statistic is a real number or NaN.  A comparison of two floats is exact
  on their values and false when either is NaN.  Floating-point arithmetic rounds, so the
  mean of numpy is not computed here: \<open>np.mean\<close> is a collaborator, see \<open>env\<close> below.
\<close>

datatype fval = NaN | Fin real

datatype statval = Num fval | Vec "fval list" | IntV int

type_synonym stats = "(string \<times> statval) list"

fun fgt :: "fval \<Rightarrow> fval \<Rightarrow> bool" where
  "fgt (Fin a) (Fin b) = (b < a)"
| "fgt NaN y = False"
| "fgt (Fin a) NaN = False"

text \<open>\<open>v[1]\<close> on a statistic.\<close>

fun second :: "statval \<Rightarrow> error + fval" where
  "second (Vec xs) = (if 1 < length xs then Inr (xs ! 1) else Inl IndexError)"
| "second (Num x) = Inl TypeError"
| "second (IntV i) = Inl TypeError"

fun seconds :: "statval list \<Rightarrow> error + fval list" where
  "seconds [] = Inr []"
| "seconds (v # vs) =
     (case second v of Inl e \<Rightarrow> Inl e
      | Inr x \<Rightarrow> (case seconds vs of Inl e \<Rightarrow> Inl e | Inr xs \<Rightarrow> Inr (x # xs)))"

text \<open>\<open>d.update(kvs)\<close> and a dictionary display with \<open>**\<close>: later keys overwrite in place.\<close>

definition dict_update :: "stats \<Rightarrow> stats \<Rightarrow> stats" where
  "dict_update d kvs = foldl (\<lambda>d kv. AList.update (fst kv) (snd kv) d) d kvs"

definition prefix_keys :: "string \<Rightarrow> stats \<Rightarrow> stats" where
  "prefix_keys p d = map (\<lambda>kv. (p @ fst kv, snd kv)) d"

subsection \<open>Observable effects, collaborators and the state of \<open>main\<close>\<close>

datatype optkind = ZeroHybridAdam | SGD | AdamW

datatype out_file = RollingCheckpoint | ArchivalCheckpoint int | BestCheckpoint | LogFile

datatype event =
    EvBuildModel
  | EvBuildOptimizer optkind
  | EvBuildDataset string string args
  | EvTorchLoad string
  | EvHubLoad string
  | EvWarning string
  | EvTrainOneEpoch int
  | EvEvaluate string
  | EvTorchSave out_file int
  | EvLogAppend stats
  | EvSaveCheckpoint "out_file list" int

text \<open>
  The collaborators that are imported by \<open>main.py\<close> are parameters: the model and dataset
  builders, the training and evaluation passes, the files and URLs that hold checkpoints,
  the mean of numpy, and the rank of the process.  Each may fail where the real one may
  raise.
\<close>

record ('ds, 'b, 'w, 'o) env =
  rank :: nat
  build_model :: "args \<Rightarrow> error + 'w state_dict"
  count_parameters :: "'w state_dict \<Rightarrow> int"
  new_optimizer :: "optkind \<Rightarrow> 'o"
  build_dataset :: "string \<Rightarrow> string \<Rightarrow> args \<Rightarrow> error + 'ds"
  get_coco_api_from_dataset :: "'ds \<Rightarrow> 'b"
  files :: "string \<Rightarrow> ('w, 'o) checkpoint option"
  hub :: "string \<Rightarrow> ('w, 'o) checkpoint option"
  train_one_epoch ::
    "'w state_dict \<Rightarrow> 'o \<Rightarrow> 'w state_dict option \<Rightarrow> 'ds list \<Rightarrow> int
       \<Rightarrow> error + ('w state_dict \<times> 'o \<times> 'w state_dict option \<times> stats)"
  evaluate :: "'w state_dict \<Rightarrow> 'ds \<Rightarrow> 'b evaluator list \<Rightarrow> args \<Rightarrow> error + stats"
  np_mean :: "fval list \<Rightarrow> fval"

record ('ds, 'b) val_data =
  dataset_name :: string
  dataloader :: 'ds
  base_ds :: 'b
  evaluator_list :: "'b evaluator list option"

text \<open>
  The state is \<open>args\<close> (mutated in place by the source) and the local variables of \<open>main\<close>.
  \<open>train_stats = None\<close> and \<open>deepspeed_engine = False\<close> stand for a local that is not bound.
\<close>

record ('ds, 'b, 'w, 'o) state =
  cfg :: args
  model :: "'w state_dict"
  model_ema :: "'w state_dict option"
  optim :: 'o
  n_parameters :: int
  dataset_train :: "'ds list option"
  val_tuples :: "('ds, 'b) val_data list"
  deepspeed_engine :: bool
  train_stats :: "stats option"
  test_stats :: stats
  best_metric :: fval
  trace :: "event list"

text \<open>
  A block of \<open>main\<close> either falls through with a new state or raises; an exception is never
  caught in \<open>main\<close>, so what remains of a raise is the error and the effects so far.
\<close>

datatype 's outcome = Done 's | Raised error "event list"

fun and_then :: "'s outcome \<Rightarrow> ('s \<Rightarrow> 't outcome) \<Rightarrow> 't outcome" where
  "and_then (Done s) f = f s"
| "and_then (Raised e t) f = Raised e t"


fun effects :: "('ds, 'b, 'w, 'o) state outcome \<Rightarrow> event list" where
  "effects (Done s) = trace s"
| "effects (Raised e t) = t"

subsection \<open>Model and optimizer (lines 273-337)\<close>

text \<open>
  The model is built first, its EMA copy is taken, the parameters are counted and the
  optimizer is chosen.  The wrappers for distributed execution share the parameters of
  the model and are not modelled.
\<close>

definition choose_optimizer :: "args \<Rightarrow> error + optkind" where
  "choose_optimizer a =
     (if use_colo_zero a then
        (if optimizer a = ''adam'' then Inr ZeroHybridAdam
         else Inl (AssertionError ''use_colo_zero can only be used with adam optimizer''))
      else if optimizer a = ''sgd'' then Inr SGD
      else if optimizer a = ''adam'' \<or> optimizer a = ''adamw'' then Inr AdamW
      else Inl (RuntimeError (''Unsupported optimizer '' @ optimizer a)))"

definition build_stage :: "('ds, 'b, 'w, 'o) env \<Rightarrow> args \<Rightarrow> ('ds, 'b, 'w, 'o) state outcome" where
  "build_stage env a =
     (case build_model env a of
        Inl e \<Rightarrow> Raised e [EvBuildModel]
      | Inr m \<Rightarrow>
          (case choose_optimizer a of
             Inl e \<Rightarrow> Raised e [EvBuildModel]
           | Inr k \<Rightarrow>
               Done \<lparr>cfg = a, model = m, model_ema = (if ema a then Some m else None),
                     optim = new_optimizer env k, n_parameters = count_parameters env m,
                     dataset_train = None, val_tuples = [], deepspeed_engine = False,
                     train_stats = None, test_stats = [], best_metric = Fin 0,
                     trace = [EvBuildModel, EvBuildOptimizer k]\<rparr>))"

subsection \<open>Training datasets (lines 339-378)\<close>

definition check_train :: "('ds, 'b, 'w, 'o) state \<Rightarrow> ('ds, 'b, 'w, 'o) state outcome" where
  "check_train s =
     (if length (combine_datasets (cfg s)) = 0 \<and> \<not> eval (cfg s)
      then Raised (RuntimeError ''Please provide at least one training dataset'') (trace s)
      else Done s)"

definition canonical :: "args \<Rightarrow> args" where
  "canonical a =
     a\<lparr>GT_type := Str ''merged_karpathy'', refexp_dataset_name := Str ''refcocog'',
       flickr_img_path := Str ''data/Flickr30k/flickr30k_images_split/train'',
       coco_path := Str ''data/coco''\<rparr>"

text \<open>
  The loop of lines 350-357 over \<open>range(len(args.combine_datasets))\<close>.  The four lists were
  cached before the loop (lines 347-348), since the loop overwrites the fields of \<open>args\<close>.
\<close>

fun build_cycle ::
  "('ds, 'b, 'w, 'o) env \<Rightarrow> cfgval \<Rightarrow> cfgval \<Rightarrow> cfgval \<Rightarrow> cfgval \<Rightarrow> nat list \<Rightarrow> 'ds list
     \<Rightarrow> ('ds, 'b, 'w, 'o) state \<Rightarrow> ('ds list \<times> ('ds, 'b, 'w, 'o) state) outcome" where
  "build_cycle env gttype_cache refexpname_cache flickr_img_path_cache coco_path_cache [] dataset_list s =
     Done (dataset_list, s)"
| "build_cycle env gttype_cache refexpname_cache flickr_img_path_cache coco_path_cache (ii # rest) dataset_list s =
     (let name = combine_datasets (cfg s) ! ii in
      case subscript gttype_cache ii of
        Inl e \<Rightarrow> Raised e (trace s)
      | Inr gttype \<Rightarrow>
      (case subscript refexpname_cache ii of
        Inl e \<Rightarrow> Raised e (trace s)
      | Inr refexpname \<Rightarrow>
      (case subscript flickr_img_path_cache ii of
        Inl e \<Rightarrow> Raised e (trace s)
      | Inr img \<Rightarrow>
      (case subscript coco_path_cache ii of
        Inl e \<Rightarrow> Raised e (trace s)
      | Inr coco \<Rightarrow>
          (let a = (cfg s)\<lparr>GT_type := gttype, refexp_dataset_name := refexpname,
                           flickr_img_path := img, coco_path := coco\<rparr>;
               t = trace s @ [EvBuildDataset name ''train'' a]
           in case build_dataset env name ''train'' a of
                Inl e \<Rightarrow> Raised e t
              | Inr d \<Rightarrow>
                  build_cycle env gttype_cache refexpname_cache flickr_img_path_cache
                    coco_path_cache rest (dataset_list @ [d]) (s\<lparr>cfg := a, trace := t\<rparr>))))))"

text \<open>The comprehension of line 363 and the loop of lines 393-407: one build per name.\<close>

fun build_each ::
  "('ds, 'b, 'w, 'o) env \<Rightarrow> string \<Rightarrow> string list \<Rightarrow> 'ds list
     \<Rightarrow> ('ds, 'b, 'w, 'o) state \<Rightarrow> ('ds list \<times> ('ds, 'b, 'w, 'o) state) outcome" where
  "build_each env image_set [] acc s = Done (acc, s)"
| "build_each env image_set (name # names) acc s =
     (let t = trace s @ [EvBuildDataset name image_set (cfg s)]
      in case build_dataset env name image_set (cfg s) of
           Inl e \<Rightarrow> Raised e t
         | Inr d \<Rightarrow> build_each env image_set names (acc @ [d]) (s\<lparr>trace := t\<rparr>))"

text \<open>
  Lines 343-364.  \<open>ConcatDataset\<close> keeps the list of its parts; the sampler and the data
  loader of lines 366-378 wrap it and are not modelled.
\<close>

definition assemble_train :: "('ds, 'b, 'w, 'o) env \<Rightarrow> ('ds, 'b, 'w, 'o) state \<Rightarrow> ('ds, 'b, 'w, 'o) state outcome" where
  "assemble_train env s =
     (if eval (cfg s) then Done s
      else if is_list (refexp_dataset_name (cfg s)) then
        and_then
          (build_cycle env (GT_type (cfg s)) (refexp_dataset_name (cfg s))
             (flickr_img_path (cfg s)) (coco_path (cfg s))
             [0 ..< length (combine_datasets (cfg s))] [] s)
          (\<lambda>r. Done ((snd r)\<lparr>dataset_train := Some (fst r), cfg := canonical (cfg (snd r))\<rparr>))
      else
        and_then (build_each env ''train'' (combine_datasets (cfg s)) [] s)
          (\<lambda>r. Done ((snd r)\<lparr>dataset_train := Some (fst r)\<rparr>)))"

subsection \<open>Validation datasets (lines 380-407)\<close>

definition check_val :: "('ds, 'b, 'w, 'o) state \<Rightarrow> ('ds, 'b, 'w, 'o) state outcome" where
  "check_val s =
     (if length (combine_datasets_val (cfg s)) = 0
      then Raised (RuntimeError ''Please provide at leas one validation dataset'') (trace s)
      else Done s)"

definition multitask_reset :: "('ds, 'b, 'w, 'o) state \<Rightarrow> ('ds, 'b, 'w, 'o) state outcome" where
  "multitask_reset s =
     (if is_list (refexp_dataset_name (cfg s)) then
        (if contains (dataset_config (cfg s)) ''multitask''
         then Done (s\<lparr>cfg := canonical (cfg s)\<rparr>)
         else Raised (AssertionError []) (trace s))
      else Done s)"

definition build_val :: "('ds, 'b, 'w, 'o) env \<Rightarrow> ('ds, 'b, 'w, 'o) state \<Rightarrow> ('ds, 'b, 'w, 'o) state outcome" where
  "build_val env s =
     and_then (build_each env ''val'' (combine_datasets_val (cfg s)) [] s)
       (\<lambda>r. Done ((snd r)\<lparr>val_tuples :=
                map (\<lambda>nd. \<lparr>dataset_name = fst nd, dataloader = snd nd,
                           base_ds = get_coco_api_from_dataset env (snd nd),
                           evaluator_list = None\<rparr>)
                    (zip (combine_datasets_val (cfg s)) (fst r))\<rparr>))"

subsection \<open>Loading checkpoints (lines 409-452)\<close>

text \<open>
  \<open>torch.hub.load_state_dict_from_url\<close> for a path that starts with \<open>https\<close>, \<open>torch.load\<close>
  otherwise.  The empty path names no file.
\<close>

definition read_checkpoint ::
  "('ds, 'b, 'w, 'o) env \<Rightarrow> string \<Rightarrow> ('ds, 'b, 'w, 'o) state
     \<Rightarrow> (('w, 'o) checkpoint \<times> ('ds, 'b, 'w, 'o) state) outcome" where
  "read_checkpoint env path s =
     (if startswith path ''https'' then
        (case hub env path of
           None \<Rightarrow> Raised (CollaboratorError ''load_state_dict_from_url'') (trace s @ [EvHubLoad path])
         | Some ck \<Rightarrow> Done (ck, s\<lparr>trace := trace s @ [EvHubLoad path]\<rparr>))
      else if path = [] then Raised (FileNotFoundError path) (trace s @ [EvTorchLoad path])
      else
        (case files env path of
           None \<Rightarrow> Raised (FileNotFoundError path) (trace s @ [EvTorchLoad path])
         | Some ck \<Rightarrow> Done (ck, s\<lparr>trace := trace s @ [EvTorchLoad path]\<rparr>)))"

definition deepcopy_if_ema :: "('ds, 'b, 'w, 'o) state \<Rightarrow> ('ds, 'b, 'w, 'o) state" where
  "deepcopy_if_ema s = (if ema (cfg s) then s\<lparr>model_ema := Some (model s)\<rparr> else s)"

text \<open>Lines 409-420: the frozen-weights path.\<close>

definition frozen_stage :: "('ds, 'b, 'w, 'o) env \<Rightarrow> ('ds, 'b, 'w, 'o) state \<Rightarrow> ('ds, 'b, 'w, 'o) state outcome" where
  "frozen_stage env s =
     (case frozen_weights (cfg s) of
        None \<Rightarrow> Done s
      | Some fw \<Rightarrow>
          and_then (read_checkpoint env (resume (cfg s)) s)
            (\<lambda>r. let checkpoint = fst r; s1 = snd r in
               if \<not> has_detr (model s1) then Raised (AttributeError ''detr'') (trace s1)
               else
                 (case ck_model_ema checkpoint of
                    Some (Some sd) \<Rightarrow> Done (deepcopy_if_ema (s1\<lparr>model := load_detr (model s1) sd\<rparr>))
                  | _ \<Rightarrow>
                      (case ck_model checkpoint of
                         None \<Rightarrow> Raised (KeyError ''model'') (trace s1)
                       | Some sd \<Rightarrow> Done (deepcopy_if_ema (s1\<lparr>model := load_detr (model s1) sd\<rparr>))))))"

text \<open>Lines 424-435: weights of another model, loaded non-strictly.\<close>

definition load_stage :: "('ds, 'b, 'w, 'o) env \<Rightarrow> ('ds, 'b, 'w, 'o) state \<Rightarrow> ('ds, 'b, 'w, 'o) state outcome" where
  "load_stage env s =
     (if load (cfg s) = [] then Done s
      else
        and_then (read_checkpoint env (load (cfg s)) s)
          (\<lambda>r. let checkpoint = fst r; s1 = snd r in
             case ck_model_ema checkpoint of
               Some None \<Rightarrow> Raised TypeError (trace s1)
             | Some (Some sd) \<Rightarrow>
                 (case load_state_dict (model s1) sd False of
                    Inl e \<Rightarrow> Raised e (trace s1)
                  | Inr m \<Rightarrow> Done (deepcopy_if_ema (s1\<lparr>model := m\<rparr>)))
             | None \<Rightarrow>
                 (case ck_model checkpoint of
                    None \<Rightarrow> Raised (KeyError ''model'') (trace s1)
                  | Some sd \<Rightarrow>
                      (case load_state_dict (model s1) sd False of
                         Inl e \<Rightarrow> Raised e (trace s1)
                       | Inr m \<Rightarrow> Done (deepcopy_if_ema (s1\<lparr>model := m\<rparr>))))))"

text \<open>
  Lines 443-446: the weights, strictly, then the optimizer and the epoch.
  \<open>optimizer.load_state_dict\<close> replaces the state of the optimizer.
\<close>

definition resume_weights ::
  "('w, 'o) checkpoint \<Rightarrow> ('ds, 'b, 'w, 'o) state \<Rightarrow> ('ds, 'b, 'w, 'o) state outcome" where
  "resume_weights checkpoint s =
     (case ck_model checkpoint of
        None \<Rightarrow> Raised (KeyError ''model'') (trace s)
      | Some sd \<Rightarrow>
          (case load_state_dict (model s) sd True of
             Inl e \<Rightarrow> Raised e (trace s)
           | Inr m \<Rightarrow>
               (let s1 = s\<lparr>model := m\<rparr> in
                case (ck_optimizer checkpoint, ck_epoch checkpoint) of
                  (Some osd, Some ep) \<Rightarrow>
                    (if \<not> eval (cfg s1)
                     then Done (s1\<lparr>optim := osd, cfg := (cfg s1)\<lparr>start_epoch := ep + 1\<rparr>\<rparr>)
                     else Done s1)
                | _ \<Rightarrow> Done s1)))"

text \<open>Lines 447-452: the shadow weights.\<close>

definition resume_ema ::
  "('w, 'o) checkpoint \<Rightarrow> ('ds, 'b, 'w, 'o) state \<Rightarrow> ('ds, 'b, 'w, 'o) state outcome" where
  "resume_ema checkpoint s =
     (if ema (cfg s) then
        (case ck_model_ema checkpoint of
           None \<Rightarrow>
             Done (s\<lparr>model_ema := Some (model s),
                     trace := trace s @ [EvWarning ''WARNING: ema model not found in checkpoint, resetting to current model'']\<rparr>)
         | Some v \<Rightarrow>
             (case model_ema s of
                None \<Rightarrow> Raised (AttributeError ''load_state_dict'') (trace s)
              | Some shadow \<Rightarrow>
                  (case v of
                     None \<Rightarrow> Raised TypeError (trace s)
                   | Some sd \<Rightarrow>
                       (case load_state_dict shadow sd True of
                          Inl e \<Rightarrow> Raised e (trace s)
                        | Inr m \<Rightarrow> Done (s\<lparr>model_ema := Some m\<rparr>)))))
      else Done s)"

definition resume_stage :: "('ds, 'b, 'w, 'o) env \<Rightarrow> ('ds, 'b, 'w, 'o) state \<Rightarrow> ('ds, 'b, 'w, 'o) state outcome" where
  "resume_stage env s =
     (if resume (cfg s) = [] then Done s
      else
        and_then (read_checkpoint env (resume (cfg s)) s)
          (\<lambda>r. and_then (resume_weights (fst r) (snd r)) (resume_ema (fst r))))"

subsection \<open>Evaluation over the validation entries (lines 485-510 and 576-596)\<close>

definition test_model :: "('ds, 'b, 'w, 'o) state \<Rightarrow> 'w state_dict" where
  "test_model s = (case model_ema s of Some shadow \<Rightarrow> shadow | None \<Rightarrow> model s)"

fun evaluate_all ::
  "('ds, 'b, 'w, 'o) env \<Rightarrow> ('ds, 'b) val_data list \<Rightarrow> stats
     \<Rightarrow> ('ds, 'b, 'w, 'o) state \<Rightarrow> (stats \<times> ('ds, 'b, 'w, 'o) state) outcome" where
  "evaluate_all env [] acc s = Done (acc, s)"
| "evaluate_all env (item # items) acc s =
     (let evaluators = build_evaluator_list (cfg s) (base_ds item) (dataset_name item) (do_caption (cfg s));
          t = trace s @ [EvEvaluate (dataset_name item)]
      in case evaluate env (test_model s) (dataloader item) evaluators (cfg s) of
           Inl e \<Rightarrow> Raised e t
         | Inr curr_test_stats \<Rightarrow>
             evaluate_all env items
               (dict_update acc (prefix_keys (dataset_name item @ ''_'') curr_test_stats))
               (s\<lparr>trace := t\<rparr>))"

definition eval_only :: "('ds, 'b, 'w, 'o) env \<Rightarrow> ('ds, 'b, 'w, 'o) state \<Rightarrow> ('ds, 'b, 'w, 'o) state outcome" where
  "eval_only env s =
     and_then (evaluate_all env (val_tuples s) [] s)
       (\<lambda>r. Done ((snd r)\<lparr>test_stats := fst r\<rparr>))"

subsection \<open>The epoch loop (lines 512-630)\<close>

text \<open>
  Lines 513-537.  \<open>deepspeed_engine\<close> is assigned only under \<open>args.from_deepspeed\<close>;
  the engines themselves are opaque.
\<close>

definition init_engines :: "('ds, 'b, 'w, 'o) state \<Rightarrow> ('ds, 'b, 'w, 'o) state" where
  "init_engines s = s\<lparr>deepspeed_engine := from_deepspeed (cfg s), best_metric := Fin 0\<rparr>"

text \<open>
  Lines 539-555.  The training pass is inside \<open>if args.distributed\<close>, and its argument list
  reads the local \<open>deepspeed_engine\<close>.
\<close>

definition train_block :: "('ds, 'b, 'w, 'o) env \<Rightarrow> int \<Rightarrow> ('ds, 'b, 'w, 'o) state \<Rightarrow> ('ds, 'b, 'w, 'o) state outcome" where
  "train_block env epoch s =
     (if distributed (cfg s) then
        (if \<not> deepspeed_engine s then Raised (UnboundLocalError ''deepspeed_engine'') (trace s)
         else
           (let t = trace s @ [EvTrainOneEpoch epoch]
            in case train_one_epoch env (model s) (optim s) (model_ema s)
                      (case dataset_train s of Some ds \<Rightarrow> ds | None \<Rightarrow> []) epoch of
                 Inl e \<Rightarrow> Raised e t
               | Inr r \<Rightarrow>
                   Done (s\<lparr>model := fst r, optim := fst (snd r), model_ema := fst (snd (snd r)),
                           train_stats := Some (snd (snd (snd r))), trace := t\<rparr>)))
      else Done s)"

text \<open>Line 557: the name \<open>loss\<close> is bound nowhere in the module.\<close>

definition logger_info :: "int \<Rightarrow> ('ds, 'b, 'w, 'o) state \<Rightarrow> ('ds, 'b, 'w, 'o) state outcome" where
  "logger_info epoch s = Raised (NameError ''loss'') (trace s)"

text \<open>
  Modelled from the spec: \<open>dist.save_on_master\<close> of \<open>util/dist.py\<close>, which is not among the
  sources; only the leader process (rank zero) performs checkpoint writes.
\<close>

definition save_on_master :: "('ds, 'b, 'w, 'o) env \<Rightarrow> out_file \<Rightarrow> int \<Rightarrow> event list" where
  "save_on_master env f epoch = (if rank env = 0 then [EvTorchSave f epoch] else [])"

text \<open>Lines 559-574.\<close>

definition checkpoint_block :: "('ds, 'b, 'w, 'o) env \<Rightarrow> int \<Rightarrow> ('ds, 'b, 'w, 'o) state \<Rightarrow> ('ds, 'b, 'w, 'o) state outcome" where
  "checkpoint_block env epoch s =
     (if output_dir (cfg s) = [] then Done s
      else if lr_drop (cfg s) = 0 then Raised ZeroDivisionError (trace s)
      else
        (let checkpoint_paths =
               [RollingCheckpoint] @
               (if (epoch + 1) mod lr_drop (cfg s) = 0 \<or> (epoch + 1) mod 2 = 0
                then [ArchivalCheckpoint epoch] else [])
         in if ema (cfg s) \<and> model_ema s = None then Raised (AttributeError ''state_dict'') (trace s)
            else Done (s\<lparr>trace := trace s @ concat (map (\<lambda>f. save_on_master env f epoch) checkpoint_paths)\<rparr>)))"

text \<open>Lines 576-596.\<close>

definition eval_block :: "('ds, 'b, 'w, 'o) env \<Rightarrow> int \<Rightarrow> ('ds, 'b, 'w, 'o) state \<Rightarrow> ('ds, 'b, 'w, 'o) state outcome" where
  "eval_block env epoch s =
     (if eval_skip (cfg s) = 0 then Raised ZeroDivisionError (trace s)
      else if epoch mod eval_skip (cfg s) = 0 then
        and_then (evaluate_all env (val_tuples s) [] s)
          (\<lambda>r. Done ((snd r)\<lparr>test_stats := fst r\<rparr>))
      else Done (s\<lparr>test_stats := []\<rparr>))"

text \<open>
  Lines 598-607.  The guard of line 605 is commented out in the source, so the record is
  written by whichever process runs the block; the rank is not consulted.
\<close>

definition log_stats :: "int \<Rightarrow> stats \<Rightarrow> ('ds, 'b, 'w, 'o) state \<Rightarrow> stats" where
  "log_stats epoch tr s =
     dict_update []
       (prefix_keys ''train_'' tr @ prefix_keys ''test_'' (test_stats s) @
        [(''epoch'', IntV epoch), (''n_parameters'', IntV (n_parameters s))])"

definition log_block :: "('ds, 'b, 'w, 'o) env \<Rightarrow> int \<Rightarrow> ('ds, 'b, 'w, 'o) state \<Rightarrow> ('ds, 'b, 'w, 'o) state outcome" where
  "log_block env epoch s =
     (case train_stats s of
        None \<Rightarrow> Raised (UnboundLocalError ''train_stats'') (trace s)
      | Some tr \<Rightarrow> Done (s\<lparr>trace := trace s @ [EvLogAppend (log_stats epoch tr s)]\<rparr>))"

text \<open>
  Lines 609-630.  \<open>metric_stats\<close> is bound nowhere in the module.  The call of
  \<open>save_checkpoint\<close> is the write of the best checkpoint.
\<close>

definition selection_values :: "stats \<Rightarrow> statval list" where
  "selection_values ts = map snd (filter (\<lambda>kv. contains (fst kv) ''coco_eval_bbox'') ts)"

definition best_block :: "('ds, 'b, 'w, 'o) env \<Rightarrow> int \<Rightarrow> ('ds, 'b, 'w, 'o) state \<Rightarrow> ('ds, 'b, 'w, 'o) state outcome" where
  "best_block env epoch s =
     (if eval_skip (cfg s) = 0 then Raised ZeroDivisionError (trace s)
      else if epoch mod eval_skip (cfg s) = 0 then
        (if do_caption (cfg s) then Raised (NameError ''metric_stats'') (trace s)
         else
           (case seconds (selection_values (test_stats s)) of
              Inl e \<Rightarrow> Raised e (trace s)
            | Inr vs \<Rightarrow>
                (let metric = np_mean env vs
                 in if output_dir (cfg s) \<noteq> [] \<and> fgt metric (best_metric s)
                    then Done (s\<lparr>best_metric := metric,
                                 trace := trace s @ [EvSaveCheckpoint [BestCheckpoint] epoch]\<rparr>)
                    else Done s)))
      else Done s)"

definition epoch_body :: "('ds, 'b, 'w, 'o) env \<Rightarrow> int \<Rightarrow> ('ds, 'b, 'w, 'o) state \<Rightarrow> ('ds, 'b, 'w, 'o) state outcome" where
  "epoch_body env epoch s =
     and_then (train_block env epoch s) (\<lambda>s1.
     and_then (logger_info epoch s1) (\<lambda>s2.
     and_then (checkpoint_block env epoch s2) (\<lambda>s3.
     and_then (eval_block env epoch s3) (\<lambda>s4.
     and_then (log_block env epoch s4) (best_block env epoch)))))"

fun run_epochs :: "('ds, 'b, 'w, 'o) env \<Rightarrow> int list \<Rightarrow> ('ds, 'b, 'w, 'o) state \<Rightarrow> ('ds, 'b, 'w, 'o) state outcome" where
  "run_epochs env [] s = Done s"
| "run_epochs env (epoch # rest) s = and_then (epoch_body env epoch s) (run_epochs env rest)"

definition epoch_loop :: "('ds, 'b, 'w, 'o) env \<Rightarrow> ('ds, 'b, 'w, 'o) state \<Rightarrow> ('ds, 'b, 'w, 'o) state outcome" where
  "epoch_loop env s = run_epochs env [start_epoch (cfg s) .. epochs (cfg s) - 1] s"

subsection \<open>The whole of \<open>main\<close>\<close>

definition startup :: "('ds, 'b, 'w, 'o) env \<Rightarrow> args \<Rightarrow> ('ds, 'b, 'w, 'o) state outcome" where
  "startup env a =
     and_then (build_stage env a) (\<lambda>s0.
     and_then (check_train s0) (\<lambda>s1.
     and_then (assemble_train env s1) (\<lambda>s2.
     and_then (check_val s2) (\<lambda>s3.
     and_then (multitask_reset s3) (\<lambda>s4.
     and_then (build_val env s4) (\<lambda>s5.
     and_then (frozen_stage env s5) (\<lambda>s6.
     and_then (load_stage env s6) (resume_stage env))))))))"

definition main :: "('ds, 'b, 'w, 'o) env \<Rightarrow> args \<Rightarrow> ('ds, 'b, 'w, 'o) state outcome" where
  "main env a =
     and_then (startup env a)
       (\<lambda>s. if eval (cfg s) then eval_only env s else epoch_loop env (init_engines s))"





subsection \<open>Concrete configurations\<close>

text \<open>
  The defaults of the argument parser (lines 56-206) with the two fields that lines 640-641
  add, and the configuration of two training datasets with per-dataset lists.
\<close>

definition default_args :: args where
  "default_args =
     \<lparr>combine_datasets = [''flickr''], combine_datasets_val = [''flickr''],
      GT_type = Str [], refexp_dataset_name = Str [],
      flickr_img_path = Str [], coco_path = Str [],
      dataset_config = ''configs/flickr.json'', flickr_dataset_path = [],
      eval = False, test = False, ema = False, do_caption = False, no_detection = False,
      distributed = False, from_colossalai = False, from_deepspeed = False,
      use_colo_zero = False, optimizer = ''adam'', frozen_weights = None,
      load = [], resume = [], output_dir = [],
      start_epoch = 0, epochs = 40, eval_skip = 1, lr_drop = 35\<rparr>"

definition multitask_args :: args where
  "multitask_args =
     default_args\<lparr>combine_datasets := [''flickr'', ''refcocog''],
       GT_type := Lst [Str ''merged'', Str ''merged_karpathy''],
       refexp_dataset_name := Lst [Str ''flickr'', Str ''refcocog''],
       flickr_img_path := Lst [Str ''data/flickr'', Str ''data/coco/images''],
       coco_path := Lst [Str ''data/none'', Str ''data/coco''],
       dataset_config := ''configs/multitask.json''\<rparr>"

definition demo_checkpoint :: "(nat, nat) checkpoint" where
  "demo_checkpoint =
     \<lparr>ck_model = Some [(''detr.w'', 7)], ck_model_ema = None,
      ck_optimizer = Some 3, ck_epoch = Some 4\<rparr>"

definition demo_checkpoint_ema :: "(nat, nat) checkpoint" where
  "demo_checkpoint_ema = demo_checkpoint\<lparr>ck_model_ema := Some (Some [(''detr.w'', 9)])\<rparr>"

text \<open>
  Collaborators for the concrete runs: a dataset is the name it was built from and the
  \<open>GT_type\<close> that \<open>args\<close> held at the time; a tensor and an optimizer state are numbers.
  The mean is given on lists of one element, where numpy does not round; no concrete run
  takes the mean of a longer list.
\<close>

definition demo_env :: "(string \<times> cfgval, string, nat, nat) env" where
  "demo_env =
     \<lparr>rank = 0,
      build_model = (\<lambda>a. Inr [(''detr.w'', 0)]),
      count_parameters = (\<lambda>m. int (length m)),
      new_optimizer = (\<lambda>k. 0),
      build_dataset = (\<lambda>name image_set a. Inr (name, GT_type a)),
      get_coco_api_from_dataset = fst,
      files = (\<lambda>p. if p = ''ckpt.pth'' then Some demo_checkpoint
                     else if p = ''ema.pth'' then Some demo_checkpoint_ema
                     else if p = ''frozen.pth'' then Some demo_checkpoint
                     else None),
      hub = (\<lambda>p. None),
      train_one_epoch = (\<lambda>m opt shadow ds epoch. Inr (m, opt, shadow, [(''loss'', Num (Fin 1))])),
      evaluate = (\<lambda>m d evs a. Inr []),
      np_mean = (\<lambda>xs. case xs of [x] \<Rightarrow> x | _ \<Rightarrow> NaN)\<rparr>"



text \<open>Values of the local variables of \<open>main\<close>, for the concrete instances of its blocks.\<close>

definition demo_state :: "(string \<times> cfgval, string, nat, nat) state" where
  "demo_state =
     \<lparr>cfg = default_args, model = [(''detr.w'', 0)], model_ema = None, optim = 0,
      n_parameters = 1, dataset_train = Some [(''flickr'', Str [])], val_tuples = [],
      deepspeed_engine = False, train_stats = Some [(''loss'', Num (Fin 1))],
      test_stats = [(''flickr_coco_eval_bbox'', Vec [Fin (1 / 10), Fin (1 / 2)])],
      best_metric = Fin 0, trace = []\<rparr>"

section \<open>Properties\<close>

lemma contains_flickr_test: "contains ''flickr_test'' ''flickr''"
  by (simp add: startswith_def)

lemma contains_refexp_flickr_test: "\<not> contains ''flickr_test'' ''refexp''"
  by (simp add: startswith_def)

subsection \<open>Evaluator composition\<close>

text \<open>
  Claim C6.  For the dataset name \<open>flickr_test\<close> with captioning enabled, the dispatcher
  returns the captioning evaluator alone when detection is disabled, and the captioning,
  detection and flickr phrase-grounding evaluators, in that order, when detection is
  enabled.
\<close>

theorem flickr_test_evaluators:
  "(no_detection a \<longrightarrow>
      build_evaluator_list a b ''flickr_test'' True =
        [FlickrCaptionEvaluator (flickr_dataset_path a) (subset_of a)
           (GT_type a = Str ''merged'') (output_dir a)]) \<and>
   (\<not> no_detection a \<longrightarrow>
      build_evaluator_list a b ''flickr_test'' True =
        [FlickrCaptionEvaluator (flickr_dataset_path a) (subset_of a)
           (GT_type a = Str ''merged'') (output_dir a),
         CocoEvaluator b [''bbox''] False,
         FlickrEvaluator (flickr_dataset_path a) (subset_of a) (GT_type a = Str ''merged'')])"
  by (simp add: build_evaluator_list_def contains_flickr_test contains_refexp_flickr_test
      del: contains.simps)

theorem flickr_test_evaluators_witness:
  "no_detection (default_args\<lparr>no_detection := True\<rparr>) \<and>
   build_evaluator_list (default_args\<lparr>no_detection := True\<rparr>) (0::nat) ''flickr_test'' True =
     [FlickrCaptionEvaluator [] ''val'' False []] \<and>
   \<not> no_detection default_args \<and>
   build_evaluator_list default_args (0::nat) ''flickr_test'' True =
     [FlickrCaptionEvaluator [] ''val'' False [], CocoEvaluator 0 [''bbox''] False,
      FlickrEvaluator [] ''val'' False]"
  using flickr_test_evaluators [of "default_args\<lparr>no_detection := True\<rparr>" "0::nat"]
    flickr_test_evaluators [of default_args "0::nat"]
  by (simp add: default_args_def subset_of_def)

subsection \<open>Multi-task cycling of the training datasets\<close>

lemma over_canonical:
  "(canonical a)\<lparr>GT_type := g, refexp_dataset_name := r, flickr_img_path := f, coco_path := c\<rparr> =
   a\<lparr>GT_type := g, refexp_dataset_name := r, flickr_img_path := f, coco_path := c\<rparr>"
  by (simp add: canonical_def)

lemma canonical_over:
  "canonical (a\<lparr>GT_type := g, refexp_dataset_name := r, flickr_img_path := f, coco_path := c\<rparr>) =
   canonical a"
  by (simp add: canonical_def)

lemma over_eq:
  assumes "canonical b = canonical a"
  shows "b\<lparr>GT_type := g, refexp_dataset_name := r, flickr_img_path := f, coco_path := c\<rparr> =
         a\<lparr>GT_type := g, refexp_dataset_name := r, flickr_img_path := f, coco_path := c\<rparr>"
  using over_canonical [where a = b and g = g and r = r and f = f and c = c]
    over_canonical [where a = a and g = g and r = r and f = f and c = c] assms by simp

lemma canonical_combine: "canonical b = canonical a \<Longrightarrow> combine_datasets b = combine_datasets a"
proof -
  assume "canonical b = canonical a"
  then have "combine_datasets (canonical b) = combine_datasets (canonical a)" by simp
  then show ?thesis by (simp add: canonical_def)
qed

lemma build_cycle_ok:
  assumes "canonical (cfg s) = canonical a"
    and "\<forall>i\<in>set idx. i < length gts \<and> i < length rns \<and> i < length ips \<and> i < length cps \<and>
           build_dataset env (combine_datasets a ! i) ''train''
             (a\<lparr>GT_type := gts ! i, refexp_dataset_name := rns ! i,
                flickr_img_path := ips ! i, coco_path := cps ! i\<rparr>) = Inr (dss i)"
  shows "\<exists>s'. build_cycle env (Lst gts) (Lst rns) (Lst ips) (Lst cps) idx acc s = Done (acc @ map dss idx, s')
           \<and> canonical (cfg s') = canonical a
           \<and> trace s' = trace s @ map (\<lambda>i. EvBuildDataset (combine_datasets a ! i) ''train''
                 (a\<lparr>GT_type := gts ! i, refexp_dataset_name := rns ! i,
                    flickr_img_path := ips ! i, coco_path := cps ! i\<rparr>)) idx
           \<and> s' = s\<lparr>cfg := cfg s', trace := trace s'\<rparr>"
  using assms
proof (induction idx arbitrary: s acc)
  case Nil
  then show ?case by simp
next
  case (Cons i idx)
  let ?a = "a\<lparr>GT_type := gts ! i, refexp_dataset_name := rns ! i,
                flickr_img_path := ips ! i, coco_path := cps ! i\<rparr>"
  let ?s1 = "s\<lparr>cfg := ?a, trace := trace s @ [EvBuildDataset (combine_datasets a ! i) ''train'' ?a]\<rparr>"
  have eq: "(cfg s)\<lparr>GT_type := gts ! i, refexp_dataset_name := rns ! i,
                flickr_img_path := ips ! i, coco_path := cps ! i\<rparr> = ?a"
    using Cons.prems(1) by (rule over_eq)
  have nm: "combine_datasets (cfg s) = combine_datasets a"
    using Cons.prems(1) by (rule canonical_combine)
  have b: "build_dataset env (combine_datasets a ! i) ''train'' ?a = Inr (dss i)"
    and bounds: "i < length gts" "i < length rns" "i < length ips" "i < length cps"
    using Cons.prems(2) by simp_all
  have step: "build_cycle env (Lst gts) (Lst rns) (Lst ips) (Lst cps) (i # idx) acc s =
        build_cycle env (Lst gts) (Lst rns) (Lst ips) (Lst cps) idx (acc @ [dss i]) ?s1"
    using bounds b by (simp add: eq nm Let_def)
  have c1: "canonical (cfg ?s1) = canonical a" by (simp add: canonical_over)
  have rest: "\<forall>i\<in>set idx. i < length gts \<and> i < length rns \<and> i < length ips \<and> i < length cps \<and>
           build_dataset env (combine_datasets a ! i) ''train''
             (a\<lparr>GT_type := gts ! i, refexp_dataset_name := rns ! i,
                flickr_img_path := ips ! i, coco_path := cps ! i\<rparr>) = Inr (dss i)"
    using Cons.prems(2) by simp
  from Cons.IH [OF c1 rest, of "acc @ [dss i]"] obtain s' where
    r: "build_cycle env (Lst gts) (Lst rns) (Lst ips) (Lst cps) idx (acc @ [dss i]) ?s1 = Done ((acc @ [dss i]) @ map dss idx, s')"
    and c: "canonical (cfg s') = canonical a"
    and t: "trace s' = trace ?s1 @ map (\<lambda>i. EvBuildDataset (combine_datasets a ! i) ''train''
                 (a\<lparr>GT_type := gts ! i, refexp_dataset_name := rns ! i,
                    flickr_img_path := ips ! i, coco_path := cps ! i\<rparr>)) idx"
    and f: "s' = ?s1\<lparr>cfg := cfg s', trace := trace s'\<rparr>"
    by blast
  have f': "s' = s\<lparr>cfg := cfg s', trace := trace s'\<rparr>"
    using f by simp
  show ?case
    apply (rule exI [of _ s'])
    using step r c t f' by simp
qed

text \<open>
  Claim C1.  When the four override fields hold lists of length \<open>k\<close>, the number of training
  datasets, and the run is not evaluation-only, the assembly makes exactly \<open>k\<close> calls of the
  dataset builder, the \<open>i\<close>-th one with a configuration whose override fields are element \<open>i\<close>
  of the lists; when these calls succeed their \<open>k\<close> results are the training dataset, and the
  configuration afterwards holds the canonical values, \<open>merged_karpathy\<close> and \<open>refcocog\<close>.
\<close>

theorem multitask_assembly:
  assumes "\<not> eval (cfg s)"
    and "GT_type (cfg s) = Lst gts" and "refexp_dataset_name (cfg s) = Lst rns"
    and "flickr_img_path (cfg s) = Lst ips" and "coco_path (cfg s) = Lst cps"
    and "length (combine_datasets (cfg s)) = k"
    and "length gts = k" and "length rns = k" and "length ips = k" and "length cps = k"
    and "\<forall>i<k. build_dataset env (combine_datasets (cfg s) ! i) ''train''
             ((cfg s)\<lparr>GT_type := gts ! i, refexp_dataset_name := rns ! i,
                      flickr_img_path := ips ! i, coco_path := cps ! i\<rparr>) = Inr (dss i)"
  shows "assemble_train env s =
           Done (s\<lparr>dataset_train := Some (map dss [0 ..< k]),
                   cfg := canonical (cfg s),
                   trace := trace s @
                     map (\<lambda>i. EvBuildDataset (combine_datasets (cfg s) ! i) ''train''
                            ((cfg s)\<lparr>GT_type := gts ! i, refexp_dataset_name := rns ! i,
                                     flickr_img_path := ips ! i, coco_path := cps ! i\<rparr>))
                         [0 ..< k]\<rparr>)
         \<and> GT_type (canonical (cfg s)) = Str ''merged_karpathy''
         \<and> refexp_dataset_name (canonical (cfg s)) = Str ''refcocog''"
proof -
  have pre: "\<forall>i\<in>set [0 ..< k]. i < length gts \<and> i < length rns \<and> i < length ips \<and> i < length cps \<and>
           build_dataset env (combine_datasets (cfg s) ! i) ''train''
             ((cfg s)\<lparr>GT_type := gts ! i, refexp_dataset_name := rns ! i,
                flickr_img_path := ips ! i, coco_path := cps ! i\<rparr>) = Inr (dss i)"
    using assms by simp
  from build_cycle_ok [OF refl pre, of "[]"] obtain s' where
    r: "build_cycle env (Lst gts) (Lst rns) (Lst ips) (Lst cps) [0 ..< k] [] s = Done ([] @ map dss [0 ..< k], s')"
    and c: "canonical (cfg s') = canonical (cfg s)"
    and t: "trace s' = trace s @ map (\<lambda>i. EvBuildDataset (combine_datasets (cfg s) ! i) ''train''
                 ((cfg s)\<lparr>GT_type := gts ! i, refexp_dataset_name := rns ! i,
                    flickr_img_path := ips ! i, coco_path := cps ! i\<rparr>)) [0 ..< k]"
    and f: "s' = s\<lparr>cfg := cfg s', trace := trace s'\<rparr>"
    by blast
  have fin: "s'\<lparr>dataset_train := Some (map dss [0 ..< k]), cfg := canonical (cfg s')\<rparr> =
      s\<lparr>dataset_train := Some (map dss [0 ..< k]), cfg := canonical (cfg s), trace := trace s'\<rparr>"
    by (subst f) (simp add: c)
  have "assemble_train env s = Done (s'\<lparr>dataset_train := Some (map dss [0 ..< k]), cfg := canonical (cfg s')\<rparr>)"
    using assms(1-6) r by (simp add: assemble_train_def)
  then show ?thesis
    using fin t by (simp add: canonical_def)
qed

theorem multitask_assembly_witness:
  "assemble_train demo_env (demo_state\<lparr>cfg := multitask_args\<rparr>) =
     Done (demo_state\<lparr>dataset_train := Some [(''flickr'', Str ''merged''), (''refcocog'', Str ''merged_karpathy'')],
             cfg := canonical multitask_args,
             trace := [EvBuildDataset ''flickr'' ''train''
                         (multitask_args\<lparr>GT_type := Str ''merged'', refexp_dataset_name := Str ''flickr'',
                            flickr_img_path := Str ''data/flickr'', coco_path := Str ''data/none''\<rparr>),
                       EvBuildDataset ''refcocog'' ''train''
                         (multitask_args\<lparr>GT_type := Str ''merged_karpathy'', refexp_dataset_name := Str ''refcocog'',
                            flickr_img_path := Str ''data/coco/images'', coco_path := Str ''data/coco''\<rparr>)]\<rparr>)"
proof -
  have two: "[0 ..< 2] = [0, Suc 0]" by (simp add: upt_rec)
  have h: "\<forall>i<2. build_dataset demo_env (combine_datasets (cfg (demo_state\<lparr>cfg := multitask_args\<rparr>)) ! i) ''train''
             ((cfg (demo_state\<lparr>cfg := multitask_args\<rparr>))\<lparr>GT_type := [Str ''merged'', Str ''merged_karpathy''] ! i,
                 refexp_dataset_name := [Str ''flickr'', Str ''refcocog''] ! i,
                 flickr_img_path := [Str ''data/flickr'', Str ''data/coco/images''] ! i,
                 coco_path := [Str ''data/none'', Str ''data/coco''] ! i\<rparr>) =
             Inr ([(''flickr'', Str ''merged''), (''refcocog'', Str ''merged_karpathy'')] ! i)"
    by (simp add: multitask_args_def default_args_def demo_env_def less_Suc_eq numeral_2_eq_2)
  show ?thesis
    using multitask_assembly [of "demo_state\<lparr>cfg := multitask_args\<rparr>"
        "[Str ''merged'', Str ''merged_karpathy'']" "[Str ''flickr'', Str ''refcocog'']"
        "[Str ''data/flickr'', Str ''data/coco/images'']" "[Str ''data/none'', Str ''data/coco'']" 2
        demo_env "\<lambda>i. [(''flickr'', Str ''merged''), (''refcocog'', Str ''merged_karpathy'')] ! i", OF _ _ _ _ _ _ _ _ _ _ h]
    by (simp add: two multitask_args_def default_args_def demo_state_def)
qed

subsection \<open>The startup checks on the dataset lists\<close>









subsection \<open>Loading checkpoints\<close>

lemma read_checkpoint_trace:
  "read_checkpoint env path s = Done (ck, s1) \<Longrightarrow>
     s1 = s\<lparr>trace := trace s @ [if startswith path ''https'' then EvHubLoad path else EvTorchLoad path]\<rparr>"
  by (auto simp: read_checkpoint_def split: if_splits option.splits)

lemma read_checkpoint_keeps:
  assumes "read_checkpoint env path s = Done (ck, s1)"
  shows "model s1 = model s" and "cfg s1 = cfg s" and "model_ema s1 = model_ema s"
  by (subst read_checkpoint_trace [OF assms], simp)+

text \<open>
  Claim C10.  When the frozen-weights path is set, the one checkpoint that the
  frozen-weights block reads is the one named by \<open>args.resume\<close>, from the URL or the file
  as its prefix decides; with an empty \<open>args.resume\<close> the block raises FileNotFoundError
  and the file named by \<open>args.frozen_weights\<close> is not read.
\<close>

theorem frozen_reads_resume:
  assumes "frozen_weights (cfg s) = Some fw"
  shows "effects (frozen_stage env s) =
           trace s @ [if startswith (resume (cfg s)) ''https''
                      then EvHubLoad (resume (cfg s)) else EvTorchLoad (resume (cfg s))] \<and>
         (resume (cfg s) = [] \<longrightarrow>
            frozen_stage env s = Raised (FileNotFoundError []) (trace s @ [EvTorchLoad []]))"
  using assms
  by (auto simp: frozen_stage_def read_checkpoint_def deepcopy_if_ema_def startswith_def Let_def
      split: option.splits)

theorem frozen_reads_resume_witness:
  "files demo_env ''frozen.pth'' = Some demo_checkpoint \<and>
   frozen_stage demo_env (demo_state\<lparr>cfg := default_args\<lparr>frozen_weights := Some ''frozen.pth''\<rparr>\<rparr>) =
     Raised (FileNotFoundError []) [EvTorchLoad []] \<and>
   effects (frozen_stage demo_env
     (demo_state\<lparr>cfg := default_args\<lparr>frozen_weights := Some ''frozen.pth'', resume := ''ckpt.pth''\<rparr>\<rparr>)) =
     [EvTorchLoad ''ckpt.pth'']"
  using frozen_reads_resume [of "demo_state\<lparr>cfg := default_args\<lparr>frozen_weights := Some ''frozen.pth''\<rparr>\<rparr>" "''frozen.pth''" demo_env]
    frozen_reads_resume [of "demo_state\<lparr>cfg := default_args\<lparr>frozen_weights := Some ''frozen.pth'', resume := ''ckpt.pth''\<rparr>\<rparr>" "''frozen.pth''" demo_env]
  by (simp add: demo_env_def demo_state_def default_args_def startswith_def)

lemma load_state_dict_strict:
  assumes "load_state_dict m sd True = Inr m'"
  shows "set (map fst sd) = set (map fst m) \<and> map fst m' = map fst m \<and>
     (\<forall>kv\<in>set m'. map_of sd (fst kv) = Some (snd kv))"
proof -
  have keys: "set (map fst sd) = set (map fst m)"
    and m': "m' = map (\<lambda>(k, v). (k, case map_of sd k of Some v' \<Rightarrow> v' | None \<Rightarrow> v)) m"
    using assms by (auto simp: load_state_dict_def split: if_splits)
  have "map_of sd (fst kv) = Some (snd kv)" if "kv \<in> set m'" for kv
  proof -
    from that m' obtain k v where kv: "(k, v) \<in> set m"
      "kv = (k, case map_of sd k of Some v' \<Rightarrow> v' | None \<Rightarrow> v)"
      by auto
    then have "k \<in> set (map fst sd)" using keys by force
    then have "map_of sd k \<noteq> None" by (simp add: map_of_eq_None_iff)
    then show ?thesis using kv by auto
  qed
  moreover have "map fst m' = map fst m" using m' by (induction m arbitrary: m') auto
  ultimately show ?thesis using keys by blast
qed

text \<open>
  Claim C2.  On a resume from a checkpoint that holds the model, the optimizer and the
  epoch, the weights are loaded with \<open>strict\<close> set, so a mismatch of the keys raises;
  otherwise, outside evaluation-only mode the optimizer takes the state of the checkpoint
  and the start epoch becomes the epoch of the checkpoint plus one, and in evaluation-only
  mode neither changes.  The handling of the shadow weights follows from that state.
\<close>

theorem resume_restores:
  assumes "resume (cfg s) \<noteq> []"
    and "read_checkpoint env (resume (cfg s)) s = Done (ck, s1)"
    and "ck_model ck = Some sd" and "ck_optimizer ck = Some osd" and "ck_epoch ck = Some ep"
  shows "resume_stage env s =
           (case load_state_dict (model s) sd True of
              Inl e \<Rightarrow> Raised e (trace s1)
            | Inr m \<Rightarrow>
                resume_ema ck
                  (if eval (cfg s) then s1\<lparr>model := m\<rparr>
                   else s1\<lparr>model := m, optim := osd, cfg := (cfg s)\<lparr>start_epoch := ep + 1\<rparr>\<rparr>))"
  using assms read_checkpoint_keeps [OF assms(2)]
  by (simp add: resume_stage_def resume_weights_def split: sum.splits)

theorem resume_restores_witness:
  "resume_stage demo_env (demo_state\<lparr>cfg := default_args\<lparr>resume := ''ckpt.pth''\<rparr>\<rparr>) =
     Done (demo_state\<lparr>cfg := default_args\<lparr>resume := ''ckpt.pth'', start_epoch := 5\<rparr>,
             model := [(''detr.w'', 7)], optim := 3, trace := [EvTorchLoad ''ckpt.pth'']\<rparr>) \<and>
   resume_stage demo_env (demo_state\<lparr>cfg := default_args\<lparr>resume := ''ckpt.pth'', eval := True\<rparr>\<rparr>) =
     Done (demo_state\<lparr>cfg := default_args\<lparr>resume := ''ckpt.pth'', eval := True\<rparr>,
             model := [(''detr.w'', 7)], trace := [EvTorchLoad ''ckpt.pth'']\<rparr>)"
proof -
  let ?s = "demo_state\<lparr>cfg := default_args\<lparr>resume := ''ckpt.pth''\<rparr>\<rparr>"
  let ?t = "demo_state\<lparr>cfg := default_args\<lparr>resume := ''ckpt.pth'', eval := True\<rparr>\<rparr>"
  have r: "read_checkpoint demo_env (resume (cfg ?s)) ?s = Done (demo_checkpoint, ?s\<lparr>trace := [EvTorchLoad ''ckpt.pth'']\<rparr>)"
    by (simp add: read_checkpoint_def demo_env_def demo_state_def default_args_def startswith_def)
  have r': "read_checkpoint demo_env (resume (cfg ?t)) ?t = Done (demo_checkpoint, ?t\<lparr>trace := [EvTorchLoad ''ckpt.pth'']\<rparr>)"
    by (simp add: read_checkpoint_def demo_env_def demo_state_def default_args_def startswith_def)
  have ne: "resume (cfg ?s) \<noteq> []" "resume (cfg ?t) \<noteq> []" by simp_all
  have ck: "ck_model demo_checkpoint = Some [(''detr.w'', 7)]" "ck_optimizer demo_checkpoint = Some 3"
    "ck_epoch demo_checkpoint = Some 4"
    by (simp_all add: demo_checkpoint_def)
  show ?thesis
    using resume_restores [OF ne(1) r ck] resume_restores [OF ne(2) r' ck]
    by (simp add: load_state_dict_def resume_ema_def demo_state_def default_args_def)
qed

lemma resume_weights_ok:
  assumes "ck_model ck = Some sd" and "set (map fst sd) = set (map fst (model s))"
  shows "\<exists>s2. resume_weights ck s = Done s2 \<and> load_state_dict (model s) sd True = Inr (model s2)
           \<and> model_ema s2 = model_ema s \<and> trace s2 = trace s \<and> ema (cfg s2) = ema (cfg s)"
  using assms
  by (cases "ck_optimizer ck"; cases "ck_epoch ck"; cases "eval (cfg s)")
     (simp_all add: resume_weights_def load_state_dict_def)

text \<open>
  Claim C5.  With EMA enabled, a resume from a readable checkpoint whose weights fit the
  model does not raise when the checkpoint has no \<open>model_ema\<close> entry: a warning is printed
  and the shadow becomes a copy of the weights just loaded.  When the checkpoint carries
  EMA weights that fit the shadow, they are loaded into the shadow.
\<close>

theorem resume_ema_fallback:
  assumes "ema (cfg s)" and "resume (cfg s) \<noteq> []"
    and "read_checkpoint env (resume (cfg s)) s = Done (ck, s1)"
    and "ck_model ck = Some sd" and "set (map fst sd) = set (map fst (model s))"
  shows "(ck_model_ema ck = None \<longrightarrow>
            (\<exists>s'. resume_stage env s = Done s' \<and>
                  load_state_dict (model s) sd True = Inr (model s') \<and>
                  model_ema s' = Some (model s') \<and>
                  trace s' = trace s1 @
                    [EvWarning ''WARNING: ema model not found in checkpoint, resetting to current model''])) \<and>
         (\<forall>esd shadow.
            ck_model_ema ck = Some (Some esd) \<and> model_ema s = Some shadow \<and>
            set (map fst esd) = set (map fst shadow) \<longrightarrow>
            (\<exists>s' m. resume_stage env s = Done s' \<and>
                    load_state_dict (model s) sd True = Inr (model s') \<and>
                    model_ema s' = Some m \<and> load_state_dict shadow esd True = Inr m))"
proof -
  note keep = read_checkpoint_keeps [OF assms(3)]
  have "set (map fst sd) = set (map fst (model s1))" using assms(5) keep by simp
  from resume_weights_ok [OF assms(4) this] obtain s2 where
    w: "resume_weights ck s1 = Done s2" and m: "load_state_dict (model s) sd True = Inr (model s2)"
    and e: "model_ema s2 = model_ema s" and t: "trace s2 = trace s1" and em: "ema (cfg s2)"
    using keep assms(1) by auto
  have stage: "resume_stage env s = resume_ema ck s2"
    using assms(2,3) w by (simp add: resume_stage_def)
  show ?thesis
    using stage m e t em by (auto simp: resume_ema_def load_state_dict_def)
qed

theorem resume_ema_fallback_witness:
  "(\<exists>s'. resume_stage demo_env (demo_state\<lparr>cfg := default_args\<lparr>resume := ''ckpt.pth'', ema := True\<rparr>\<rparr>) = Done s' \<and>
         model s' = [(''detr.w'', 7)] \<and> model_ema s' = Some [(''detr.w'', 7)]) \<and>
   (\<exists>s'. resume_stage demo_env
           (demo_state\<lparr>cfg := default_args\<lparr>resume := ''ema.pth'', ema := True\<rparr>,
                       model_ema := Some [(''detr.w'', 0)]\<rparr>) = Done s' \<and>
         model s' = [(''detr.w'', 7)] \<and> model_ema s' = Some [(''detr.w'', 9)])"
proof -
  let ?s = "demo_state\<lparr>cfg := default_args\<lparr>resume := ''ckpt.pth'', ema := True\<rparr>\<rparr>"
  let ?t = "demo_state\<lparr>cfg := default_args\<lparr>resume := ''ema.pth'', ema := True\<rparr>, model_ema := Some [(''detr.w'', 0)]\<rparr>"
  have r: "read_checkpoint demo_env (resume (cfg ?s)) ?s = Done (demo_checkpoint, ?s\<lparr>trace := [EvTorchLoad ''ckpt.pth'']\<rparr>)"
    by (simp add: read_checkpoint_def demo_env_def demo_state_def default_args_def startswith_def)
  have r': "read_checkpoint demo_env (resume (cfg ?t)) ?t = Done (demo_checkpoint_ema, ?t\<lparr>trace := [EvTorchLoad ''ema.pth'']\<rparr>)"
    by (simp add: read_checkpoint_def demo_env_def demo_state_def default_args_def startswith_def)
  have ck: "ck_model demo_checkpoint = Some [(''detr.w'', 7)]" "ck_model demo_checkpoint_ema = Some [(''detr.w'', 7)]"
    "ck_model_ema demo_checkpoint = None" "ck_model_ema demo_checkpoint_ema = Some (Some [(''detr.w'', 9)])"
    by (simp_all add: demo_checkpoint_def demo_checkpoint_ema_def)
  have k: "set (map fst [(''detr.w'', 7::nat)]) = set (map fst (model ?s))"
    "set (map fst [(''detr.w'', 7::nat)]) = set (map fst (model ?t))"
    by (simp_all add: demo_state_def)
  have e: "ema (cfg ?s)" "ema (cfg ?t)" "resume (cfg ?s) \<noteq> []" "resume (cfg ?t) \<noteq> []" by simp_all
  have m: "model ?s = [(''detr.w'', 0)]" "model ?t = [(''detr.w'', 0)]" "model_ema ?t = Some [(''detr.w'', 0)]"
    by (simp_all add: demo_state_def)
  have ld: "load_state_dict [(''detr.w'', 0::nat)] [(''detr.w'', 7)] True = Inr [(''detr.w'', 7)]"
    "load_state_dict [(''detr.w'', 0::nat)] [(''detr.w'', 9)] True = Inr [(''detr.w'', 9)]"
    by (simp_all add: load_state_dict_def)
  from resume_ema_fallback [OF e(1) e(3) r ck(1) k(1)] ck(3)
  have a: "\<exists>s'. resume_stage demo_env ?s = Done s' \<and>
         model s' = [(''detr.w'', 7)] \<and> model_ema s' = Some [(''detr.w'', 7)]"
    unfolding m ld by auto
  from resume_ema_fallback [OF e(2) e(4) r' ck(2) k(2)] ck(4) m(3)
  have b: "\<exists>s'. resume_stage demo_env ?t = Done s' \<and>
         model s' = [(''detr.w'', 7)] \<and> model_ema s' = Some [(''detr.w'', 9)]"
    unfolding m(2) ld by (auto simp: ld)
  show ?thesis using a b by blast
qed

subsection \<open>The epoch loop\<close>

lemma epoch_body_raises: "\<exists>e t. epoch_body env epoch s = Raised e t"
  by (cases "train_block env epoch s") (simp_all add: epoch_body_def logger_info_def)

lemma run_epochs_raises: "es \<noteq> [] \<Longrightarrow> \<exists>e t. run_epochs env es s = Raised e t"
  using epoch_body_raises [of env "hd es" s] by (cases es) auto

lemma epoch_loop_raises:
  assumes "start_epoch (cfg s) < epochs (cfg s)"
  shows "\<exists>e t. epoch_loop env s = Raised e t"
proof -
  have "[start_epoch (cfg s) .. epochs (cfg s) - 1] \<noteq> []" using assms by simp
  then show ?thesis unfolding epoch_loop_def by (rule run_epochs_raises)
qed

text \<open>
  Claim C3 asks for one training pass in every epoch and for its statistics in the log
  record of the epoch.  The run below is the default configuration: the training pass is
  skipped because the run is not distributed, and the first epoch ends at line 557 with a
  NameError, before any record is written.  The second run is distributed with DeepSpeed:
  the pass of epoch 0 runs, and the same NameError follows.
\<close>

theorem default_run_raises:
  "main demo_env default_args =
     Raised (NameError ''loss'')
       [EvBuildModel, EvBuildOptimizer AdamW,
        EvBuildDataset ''flickr'' ''train'' default_args,
        EvBuildDataset ''flickr'' ''val'' default_args] \<and>
   main demo_env (default_args\<lparr>distributed := True, from_deepspeed := True\<rparr>) =
     Raised (NameError ''loss'')
       [EvBuildModel, EvBuildOptimizer AdamW,
        EvBuildDataset ''flickr'' ''train'' (default_args\<lparr>distributed := True, from_deepspeed := True\<rparr>),
        EvBuildDataset ''flickr'' ''val'' (default_args\<lparr>distributed := True, from_deepspeed := True\<rparr>),
        EvTrainOneEpoch 0]"
proof -
  have st: "startup demo_env default_args =
      Done \<lparr>cfg = default_args, model = [(''detr.w'', 0)], model_ema = None, optim = 0,
            n_parameters = 1, dataset_train = Some [(''flickr'', Str [])],
            val_tuples = [\<lparr>dataset_name = ''flickr'', dataloader = (''flickr'', Str []),
                            base_ds = ''flickr'', evaluator_list = None\<rparr>],
            deepspeed_engine = False, train_stats = None, test_stats = [], best_metric = Fin 0,
            trace = [EvBuildModel, EvBuildOptimizer AdamW,
                     EvBuildDataset ''flickr'' ''train'' default_args,
                     EvBuildDataset ''flickr'' ''val'' default_args]\<rparr>"
    by (simp add: startup_def build_stage_def choose_optimizer_def check_train_def
        assemble_train_def check_val_def multitask_reset_def build_val_def frozen_stage_def
        load_stage_def resume_stage_def demo_env_def default_args_def)
  let ?d = "default_args\<lparr>distributed := True, from_deepspeed := True\<rparr>"
  have st': "startup demo_env ?d =
      Done \<lparr>cfg = ?d, model = [(''detr.w'', 0)], model_ema = None, optim = 0,
            n_parameters = 1, dataset_train = Some [(''flickr'', Str [])],
            val_tuples = [\<lparr>dataset_name = ''flickr'', dataloader = (''flickr'', Str []),
                            base_ds = ''flickr'', evaluator_list = None\<rparr>],
            deepspeed_engine = False, train_stats = None, test_stats = [], best_metric = Fin 0,
            trace = [EvBuildModel, EvBuildOptimizer AdamW,
                     EvBuildDataset ''flickr'' ''train'' ?d,
                     EvBuildDataset ''flickr'' ''val'' ?d]\<rparr>"
    by (simp add: startup_def build_stage_def choose_optimizer_def check_train_def
        assemble_train_def check_val_def multitask_reset_def build_val_def frozen_stage_def
        load_stage_def resume_stage_def demo_env_def default_args_def)
  have up: "[0 .. 39] = 0 # [1 .. (39::int)]" by (simp add: upto_rec1)
  have a: "main demo_env default_args =
     Raised (NameError ''loss'')
       [EvBuildModel, EvBuildOptimizer AdamW,
        EvBuildDataset ''flickr'' ''train'' default_args,
        EvBuildDataset ''flickr'' ''val'' default_args]"
    unfolding main_def st
    by (simp add: epoch_loop_def init_engines_def default_args_def up epoch_body_def
        train_block_def logger_info_def)
  have b: "main demo_env ?d =
     Raised (NameError ''loss'')
       [EvBuildModel, EvBuildOptimizer AdamW,
        EvBuildDataset ''flickr'' ''train'' ?d, EvBuildDataset ''flickr'' ''val'' ?d,
        EvTrainOneEpoch 0]"
    unfolding main_def st'
    by (simp add: epoch_loop_def init_engines_def default_args_def up epoch_body_def
        train_block_def logger_info_def demo_env_def)
  show ?thesis using a b by simp
qed

lemma epoch_body_effects:
  "effects (epoch_body env epoch s) = trace s \<or>
   effects (epoch_body env epoch s) = trace s @ [EvTrainOneEpoch epoch]"
  by (auto simp: epoch_body_def train_block_def logger_info_def Let_def split: sum.splits)

lemma run_epochs_first:
  "run_epochs env (epoch # rest) s = epoch_body env epoch s"
  using epoch_body_raises [of env epoch s] by auto

lemma epoch_loop_effects:
  "effects (epoch_loop env s) = trace s \<or>
   effects (epoch_loop env s) = trace s @ [EvTrainOneEpoch (start_epoch (cfg s))]"
proof (cases "start_epoch (cfg s) < epochs (cfg s)")
  case True
  then have "[start_epoch (cfg s) .. epochs (cfg s) - 1] =
      start_epoch (cfg s) # [start_epoch (cfg s) + 1 .. epochs (cfg s) - 1]"
    by (simp add: upto_rec1)
  then show ?thesis
    using epoch_body_effects [of env "start_epoch (cfg s)" s]
    by (simp add: epoch_loop_def run_epochs_first del: run_epochs.simps)
next
  case False
  then show ?thesis by (simp add: epoch_loop_def)
qed

lemma main_loop_effects:
  assumes "startup env a = Done s" and "\<not> eval (cfg s)"
  shows "effects (main env a) = trace s \<or>
         effects (main env a) = trace s @ [EvTrainOneEpoch (start_epoch (cfg s))]"
  using assms epoch_loop_effects [of env "init_engines s"]
  by (simp add: main_def init_engines_def)





end
